theory Spec2Isabelle
  imports Main "HOL-Library.Word"
begin

section \<open>The keystore data model (pkg/keystore/store.go)\<close>

type_synonym u32 = "32 word"

text \<open>
  Modelled from the spec: the declaration of the Go type \<open>Change\<close> and of its constants
  \<open>External\<close> and \<open>Internal\<close> is not part of store.go. Section 3 of the specification gives
  the tag values EXTERNAL=0 and INTERNAL=1, which are also the first component of a
  derivation path. The type is kept wider than its two constants, because every switch
  over a \<open>Change\<close> in store.go has a default branch.
\<close>

type_synonym Change = u32

definition External :: Change where
  "External = 0"

definition Internal :: Change where
  "Internal = 1"

text \<open>
  Modelled from the spec: \<open>DerivationPath\<close> is declared outside store.go; section 3 has it as
  the pair (change, address index) of unsigned 32-bit child indexes.
\<close>

type_synonym DerivationPath = "Change \<times> u32"

text \<open>\<open>Scheme\<close> and \<open>Network\<close> are Go string types with named constants.\<close>

type_synonym Scheme = string

definition BIP44 :: Scheme where
  "BIP44 = ''BIP44''"

definition BIP49 :: Scheme where
  "BIP49 = ''BIP49''"

definition BIP84 :: Scheme where
  "BIP84 = ''BIP84''"

type_synonym Network = string

definition Mainnet :: Network where
  "Mainnet = ''mainnet''"

definition Testnet3 :: Network where
  "Testnet3 = ''testnet3''"

definition Regtest :: Network where
  "Regtest = ''regtest''"

text \<open>\<open>const lookaheadSize = 20\<close>\<close>

definition lookaheadSize :: u32 where
  "lookaheadSize = 20"

record KeychainInfo =
  Descriptor :: string
  XPub :: string
  SLIP32ExtendedPublicKey :: string
  ExternalXPub :: string
  MaxConsecutiveExternalIndex :: u32
  InternalXPub :: string
  MaxConsecutiveInternalIndex :: u32
  LookaheadSize :: u32
  Scheme :: Scheme
  Network :: Network
  NonConsecutiveExternalIndexes :: "u32 list"
  NonConsecutiveInternalIndexes :: "u32 list"

text \<open>The value type of \<open>derivationToPublicKeyMap\<close>, an anonymous struct in the source.\<close>

record derivation =
  PublicKey :: string
  Used :: bool

type_synonym derivationToPublicKeyMap = "DerivationPath \<rightharpoonup> derivation"

record Meta =
  Main :: KeychainInfo
  Derivations :: derivationToPublicKeyMap
  Addresses :: "string \<rightharpoonup> DerivationPath"

text \<open>\<open>Schema\<close> maps account descriptors to account records.\<close>

type_synonym Schema = "string \<rightharpoonup> Meta"

subsection \<open>Errors\<close>

text \<open>
  Modelled from the spec: the error values are declared outside store.go.
  \<open>ErrUnrecognizedChange\<close> is the sentinel that store.go wraps with \<open>errors.Wrapf\<close>; the
  message of the wrapper is the formatted change value, kept here as the value itself.
  \<open>Cause\<close> is \<open>errors.Cause\<close>: it strips the wrappers. The other values are the tags
  of section 7 of the specification that the engine operations below can return.
\<close>

datatype error =
    ErrUnrecognizedChange
  | NOT_FOUND
  | ALREADY_EXISTS
  | HARDENED_INDEX
  | INVALID_DERIVATION
  | ADDRESS_NOT_OBSERVABLE
  | Wrapf error Change

fun Cause :: "error \<Rightarrow> error" where
  "Cause (Wrapf e msg) = Cause e"
| "Cause e = e"

section \<open>The accessors of Meta\<close>

text \<open>
  Methods with a value receiver read the record and return a value or an error. Methods
  with a pointer receiver return the record after the call together with the returned
  error (\<open>None\<close> is Go's \<open>nil\<close>).
\<close>

definition ChangeXPub :: "Meta \<Rightarrow> Change \<Rightarrow> error + string" where
  "ChangeXPub m change =
     (if change = External then Inr (ExternalXPub (Main m))
      else if change = Internal then Inr (InternalXPub (Main m))
      else Inl (Wrapf ErrUnrecognizedChange change))"

definition MaxConsecutiveIndex :: "Meta \<Rightarrow> Change \<Rightarrow> error + u32" where
  "MaxConsecutiveIndex m change =
     (if change = External then Inr (MaxConsecutiveExternalIndex (Main m))
      else if change = Internal then Inr (MaxConsecutiveInternalIndex (Main m))
      else Inl (Wrapf ErrUnrecognizedChange change))"

definition SetMaxConsecutiveIndex :: "Meta \<Rightarrow> Change \<Rightarrow> u32 \<Rightarrow> Meta \<times> error option" where
  "SetMaxConsecutiveIndex m change index =
     (if change = External then
        (m\<lparr>Main := (Main m)\<lparr>MaxConsecutiveExternalIndex := index\<rparr>\<rparr>, None)
      else if change = Internal then
        (m\<lparr>Main := (Main m)\<lparr>MaxConsecutiveInternalIndex := index\<rparr>\<rparr>, None)
      else (m, Some (Wrapf ErrUnrecognizedChange change)))"

definition NonConsecutiveIndexes :: "Meta \<Rightarrow> Change \<Rightarrow> error + u32 list" where
  "NonConsecutiveIndexes m change =
     (if change = External then Inr (NonConsecutiveExternalIndexes (Main m))
      else if change = Internal then Inr (NonConsecutiveInternalIndexes (Main m))
      else Inl (Wrapf ErrUnrecognizedChange change))"

text \<open>
  The range loop of \<open>SetNonConsecutiveIndexes\<close>: \<open>result\<close> starts as the nil slice and
  every index that is at least the max consecutive index is appended to it.
\<close>

fun filter_loop :: "u32 \<Rightarrow> u32 list \<Rightarrow> u32 list \<Rightarrow> u32 list" where
  "filter_loop maxConsecutiveIndex [] result = result"
| "filter_loop maxConsecutiveIndex (i # indexes) result =
     filter_loop maxConsecutiveIndex indexes
       (if i \<ge> maxConsecutiveIndex then result @ [i] else result)"

definition SetNonConsecutiveIndexes :: "Meta \<Rightarrow> Change \<Rightarrow> u32 list \<Rightarrow> Meta \<times> error option" where
  "SetNonConsecutiveIndexes m change indexes =
     (case MaxConsecutiveIndex m change of
        Inl err \<Rightarrow> (m, Some err)
      | Inr maxConsecutiveIndex \<Rightarrow>
          (let result = filter_loop maxConsecutiveIndex indexes [] in
           if change = External then
             (m\<lparr>Main := (Main m)\<lparr>NonConsecutiveExternalIndexes := result\<rparr>\<rparr>, None)
           else if change = Internal then
             (m\<lparr>Main := (Main m)\<lparr>NonConsecutiveInternalIndexes := result\<rparr>\<rparr>, None)
           else (m, Some (Wrapf ErrUnrecognizedChange change))))"

text \<open>
  \<open>uint32(len(...))\<close> keeps the low 32 bits of the length, and the sum is formed in
  \<open>uint32\<close>, which wraps around.
\<close>

definition MaxObservableIndex :: "Meta \<Rightarrow> Change \<Rightarrow> error + u32" where
  "MaxObservableIndex m change =
     (if change = External then
        (let n = (of_nat (length (NonConsecutiveExternalIndexes (Main m))) :: u32) in
         Inr (MaxConsecutiveExternalIndex (Main m) + n + LookaheadSize (Main m)))
      else if change = Internal then
        (let n = (of_nat (length (NonConsecutiveInternalIndexes (Main m))) :: u32) in
         Inr (MaxConsecutiveInternalIndex (Main m) + n + LookaheadSize (Main m)))
      else Inl (Wrapf ErrUnrecognizedChange change))"

text \<open>The error test used by callers: the cause of the returned error is the sentinel.\<close>

definition unrecognized_change :: "error + 'a \<Rightarrow> bool" where
  "unrecognized_change r = (case r of Inl e \<Rightarrow> Cause e = ErrUnrecognizedChange | Inr v \<Rightarrow> False)"

definition unrecognized_change_err :: "error option \<Rightarrow> bool" where
  "unrecognized_change_err r = (case r of Some e \<Rightarrow> Cause e = ErrUnrecognizedChange | None \<Rightarrow> False)"

text \<open>A concrete account record, used to run the operations on explicit inputs.\<close>

definition meta0 :: Meta where
  "meta0 =
     \<lparr>Main =
        \<lparr>Descriptor = ''d'', XPub = ''xpub'', SLIP32ExtendedPublicKey = ''xpub'',
         ExternalXPub = ''ext'', MaxConsecutiveExternalIndex = 0,
         InternalXPub = ''int'', MaxConsecutiveInternalIndex = 0,
         LookaheadSize = lookaheadSize, Scheme = BIP44, Network = Mainnet,
         NonConsecutiveExternalIndexes = [], NonConsecutiveInternalIndexes = []\<rparr>,
      Derivations = Map.empty, Addresses = Map.empty\<rparr>"

text \<open>
  The index invariant of a chain, as a test on a record: every entry of the
  non-consecutive list of the chain compares with the max consecutive index of the chain,
  strictly (\<open>above_max\<close>) or not (\<open>at_least_max\<close>). For a change value that the
  accessors reject the test is false.
\<close>

definition above_max :: "Meta \<Rightarrow> Change \<Rightarrow> bool" where
  "above_max m change =
     (case MaxConsecutiveIndex m change of
        Inl err \<Rightarrow> False
      | Inr mx \<Rightarrow>
          (case NonConsecutiveIndexes m change of
             Inl err \<Rightarrow> False
           | Inr xs \<Rightarrow> list_all (\<lambda>i. mx < i) xs))"

definition at_least_max :: "Meta \<Rightarrow> Change \<Rightarrow> bool" where
  "at_least_max m change =
     (case MaxConsecutiveIndex m change of
        Inl err \<Rightarrow> False
      | Inr mx \<Rightarrow>
          (case NonConsecutiveIndexes m change of
             Inl err \<Rightarrow> False
           | Inr xs \<Rightarrow> list_all (\<lambda>i. mx \<le> i) xs))"


section \<open>The keychain engine (section 4.5 of the specification)\<close>

text \<open>
  Modelled from the spec: store.go declares \<open>MarkPathAsUsed\<close>, \<open>GetFreshAddresses\<close> and
  \<open>Create\<close> in the \<open>Keystore\<close> interface only; their bodies are not part of the source
  at hand. The definitions of this section follow the words of section 4.5 of the
  specification and read the account record through the accessors of store.go.
\<close>

text \<open>
  Modelled from the spec: gap closure. "While the smallest element of
  \<open>non_consecutive(C)\<close> equals the new \<open>max_consecutive(C)\<close>, remove it and increment
  again." The list stands for a set, so removing an element removes every occurrence.
\<close>

function close_gaps :: "u32 \<Rightarrow> u32 list \<Rightarrow> u32 \<times> u32 list" where
  "close_gaps mx xs =
     (if xs \<noteq> [] \<and> Min (set xs) = mx
      then close_gaps (mx + 1) (removeAll mx xs)
      else (mx, xs))"
  by pat_completeness auto
termination
proof (relation "measure (\<lambda>(mx, xs). length xs)")
  show "wf (measure (\<lambda>(mx, xs). length xs))" by simp
next
  fix mx :: u32 and xs :: "u32 list"
  assume "xs \<noteq> [] \<and> Min (set xs) = mx"
  then have "mx \<in> set xs" using Min_in[of "set xs"] by auto
  then show "((mx + 1, removeAll mx xs), (mx, xs)) \<in> measure (\<lambda>(mx, xs). length xs)"
    by (simp add: length_removeAll_less)
qed

declare close_gaps.simps [simp del]

text \<open>
  Modelled from the spec: "insert \<open>i\<close> into \<open>non_consecutive(C)\<close> (set semantics;
  duplicates are no-ops)". A new index goes to the end of the persisted list.
\<close>

definition insert_index :: "u32 \<Rightarrow> u32 list \<Rightarrow> u32 list" where
  "insert_index i xs = (if i \<in> set xs then xs else xs @ [i])"

text \<open>
  Modelled from the spec: the three cases of marking index \<open>i\<close> on a chain whose max
  consecutive index is \<open>mx\<close> and whose non-consecutive list is \<open>xs\<close>.
\<close>

definition mark_index :: "u32 \<Rightarrow> u32 \<times> u32 list \<Rightarrow> u32 \<times> u32 list" where
  "mark_index i st =
     (case st of (mx, xs) \<Rightarrow>
        if i < mx then (mx, xs)
        else if i = mx then close_gaps (mx + 1) xs
        else (mx, insert_index i xs))"

text \<open>
  Modelled from the spec: writing the new max consecutive index and non-consecutive list
  of a chain into the account record. Other change values write nothing.
\<close>

definition set_chain :: "Meta \<Rightarrow> Change \<Rightarrow> u32 \<times> u32 list \<Rightarrow> Meta" where
  "set_chain m change st =
     (if change = External then
        m\<lparr>Main := (Main m)\<lparr>MaxConsecutiveExternalIndex := fst st,
                             NonConsecutiveExternalIndexes := snd st\<rparr>\<rparr>
      else if change = Internal then
        m\<lparr>Main := (Main m)\<lparr>MaxConsecutiveInternalIndex := fst st,
                             NonConsecutiveInternalIndexes := snd st\<rparr>\<rparr>
      else m)"

text \<open>
  Modelled from the spec: an index with bit 31 set is hardened. "Any request carrying an
  index with bit 31 set must fail \<open>HARDENED_INDEX\<close>" (sections 6, 7 and 9).
\<close>

definition hardened :: "u32 \<Rightarrow> bool" where
  "hardened i = (2 ^ 31 \<le> i)"

text \<open>
  Modelled from the spec: the index accounting of \<open>MarkPathAsUsed(descriptor, path)\<close> with
  \<open>path = (C, i)\<close>. A path with a hardened component is \<open>HARDENED_INDEX\<close>, an absent
  descriptor is \<open>NOT_FOUND\<close> (section 4.4), a change tag outside the two chains is the
  error of the accessors, and an index beyond the observable window, that is at or above
  \<open>MaxObservableIndex\<close> of the chain, is \<open>ADDRESS_NOT_OBSERVABLE\<close> (section 7). A failed
  call leaves the store as it is. Otherwise the three cases of \<open>mark_index\<close> apply. The
  used flag of the derivation cache and the extension of the cache over the observable
  window need the key derivation of section 4.2 and are not modelled: the model leaves
  both caches as they are.
\<close>

definition MarkPathAsUsed :: "Schema \<Rightarrow> string \<Rightarrow> DerivationPath \<Rightarrow> Schema \<times> error option" where
  "MarkPathAsUsed s descriptor path =
     (if hardened (fst path) \<or> hardened (snd path) then (s, Some HARDENED_INDEX)
      else
        (case s descriptor of
           None \<Rightarrow> (s, Some NOT_FOUND)
         | Some m \<Rightarrow>
             (case MaxObservableIndex m (fst path) of
                Inl err \<Rightarrow> (s, Some err)
              | Inr observable \<Rightarrow>
                  if observable \<le> snd path then (s, Some ADDRESS_NOT_OBSERVABLE)
                  else
                    (case MaxConsecutiveIndex m (fst path) of
                       Inl err \<Rightarrow> (s, Some err)
                     | Inr mx \<Rightarrow>
                         (case NonConsecutiveIndexes m (fst path) of
                            Inl err \<Rightarrow> (s, Some err)
                          | Inr xs \<Rightarrow>
                              (s(descriptor \<mapsto>
                                   set_chain m (fst path) (mark_index (snd path) (mx, xs))),
                               None))))))"

text \<open>
  Modelled from the spec: the address at the path \<open>(change, i)\<close> of an account. The
  derivation and encoding of sections 4.2 and 4.3 are the parameter \<open>address_at\<close>, which
  can fail (\<open>INVALID_DERIVATION\<close>). The index is a natural number here, so that it
  cannot wrap around: an index of \<open>2^31\<close> or more is rejected as \<open>HARDENED_INDEX\<close>
  before it is converted to 32 bits.
\<close>

definition derive_address ::
  "(KeychainInfo \<Rightarrow> DerivationPath \<Rightarrow> error + string) \<Rightarrow> KeychainInfo \<Rightarrow> Change \<Rightarrow> nat
     \<Rightarrow> error + string" where
  "derive_address address_at info change i =
     (if 2 ^ 31 \<le> i then Inl HARDENED_INDEX else address_at info (change, of_nat i))"

text \<open>
  Modelled from the spec: the addresses at the \<open>k\<close> paths \<open>(change, i)\<close>,
  \<open>(change, i + 1)\<close>, ..., in this order; the first failing derivation ends the
  enumeration with its error (section 7: errors are surfaced unchanged).
\<close>

fun fresh_addresses ::
  "(KeychainInfo \<Rightarrow> DerivationPath \<Rightarrow> error + string) \<Rightarrow> KeychainInfo \<Rightarrow> Change \<Rightarrow> nat \<Rightarrow> nat
     \<Rightarrow> error + string list" where
  "fresh_addresses address_at info change i 0 = Inr []"
| "fresh_addresses address_at info change i (Suc k) =
     (case derive_address address_at info change i of
        Inl err \<Rightarrow> Inl err
      | Inr a \<Rightarrow>
          (case fresh_addresses address_at info change (Suc i) k of
             Inl err \<Rightarrow> Inl err
           | Inr as \<Rightarrow> Inr (a # as)))"

text \<open>
  Modelled from the spec: \<open>GetFreshAddresses(descriptor, change, n)\<close>. "Let
  \<open>base = max_consecutive(change)\<close>; return addresses at paths \<open>(change, base)\<close>, ...,
  \<open>(change, base+n-1)\<close>. No state mutation." The store after the call is returned with
  the result.
\<close>

definition GetFreshAddresses ::
  "(KeychainInfo \<Rightarrow> DerivationPath \<Rightarrow> error + string) \<Rightarrow> Schema \<Rightarrow> string \<Rightarrow> Change \<Rightarrow> u32
     \<Rightarrow> Schema \<times> (error + string list)" where
  "GetFreshAddresses address_at s descriptor change n =
     (case s descriptor of
        None \<Rightarrow> (s, Inl NOT_FOUND)
      | Some m \<Rightarrow>
          (case MaxConsecutiveIndex m change of
             Inl err \<Rightarrow> (s, Inl err)
           | Inr base \<Rightarrow>
               (s, fresh_addresses address_at (Main m) change (unat base) (unat n))))"

text \<open>
  Modelled from the spec: \<open>CreateKeychain(xpub, scheme, network, lookahead=20)\<close>. The
  child key derivation \<open>CKDpub\<close> and the SLIP-0132 serialisation are parameters. A call
  without a lookahead (\<open>None\<close>) takes the package constant \<open>lookaheadSize\<close>. The counters
  start at 0, the lists and the caches empty; a descriptor already in the store is
  \<open>ALREADY_EXISTS\<close>.
\<close>

definition CreateKeychain ::
  "(string \<Rightarrow> u32 \<Rightarrow> string) \<Rightarrow> (string \<Rightarrow> Scheme \<Rightarrow> Network \<Rightarrow> string) \<Rightarrow> Schema \<Rightarrow> string
     \<Rightarrow> string \<Rightarrow> Scheme \<Rightarrow> Network \<Rightarrow> u32 option \<Rightarrow> Schema \<times> (error + KeychainInfo)" where
  "CreateKeychain CKDpub slip32 s descriptor xpub scheme network lookahead =
     (case s descriptor of
        Some m \<Rightarrow> (s, Inl ALREADY_EXISTS)
      | None \<Rightarrow>
          (let info =
             \<lparr>Descriptor = descriptor, XPub = xpub,
              SLIP32ExtendedPublicKey = slip32 xpub scheme network,
              ExternalXPub = CKDpub xpub 0, MaxConsecutiveExternalIndex = 0,
              InternalXPub = CKDpub xpub 1, MaxConsecutiveInternalIndex = 0,
              LookaheadSize = (case lookahead of None \<Rightarrow> lookaheadSize | Some l \<Rightarrow> l),
              Scheme = scheme, Network = network,
              NonConsecutiveExternalIndexes = [], NonConsecutiveInternalIndexes = []\<rparr>
           in (s(descriptor \<mapsto> \<lparr>Main = info, Derivations = Map.empty, Addresses = Map.empty\<rparr>),
               Inr info)))"

section \<open>Basic facts\<close>

lemma External_neq_Internal: "External \<noteq> Internal"
  by (simp add: External_def Internal_def)

lemma filter_loop_filter:
  "filter_loop mx indexes result = result @ filter (\<lambda>i. mx \<le> i) indexes"
  by (induction indexes arbitrary: result) simp_all

section \<open>The accessors, case by case\<close>

lemma Cause_wrapped: "Cause (Wrapf ErrUnrecognizedChange c) = ErrUnrecognizedChange"
  by simp

lemma ChangeXPub_cases:
  "ChangeXPub m External = Inr (ExternalXPub (Main m))"
  "ChangeXPub m Internal = Inr (InternalXPub (Main m))"
  "c \<noteq> External \<Longrightarrow> c \<noteq> Internal \<Longrightarrow> ChangeXPub m c = Inl (Wrapf ErrUnrecognizedChange c)"
  by (simp_all add: ChangeXPub_def External_neq_Internal[symmetric])

lemma MaxConsecutiveIndex_cases:
  "MaxConsecutiveIndex m External = Inr (MaxConsecutiveExternalIndex (Main m))"
  "MaxConsecutiveIndex m Internal = Inr (MaxConsecutiveInternalIndex (Main m))"
  "c \<noteq> External \<Longrightarrow> c \<noteq> Internal \<Longrightarrow> MaxConsecutiveIndex m c = Inl (Wrapf ErrUnrecognizedChange c)"
  by (simp_all add: MaxConsecutiveIndex_def External_neq_Internal[symmetric])

lemma NonConsecutiveIndexes_cases:
  "NonConsecutiveIndexes m External = Inr (NonConsecutiveExternalIndexes (Main m))"
  "NonConsecutiveIndexes m Internal = Inr (NonConsecutiveInternalIndexes (Main m))"
  "c \<noteq> External \<Longrightarrow> c \<noteq> Internal \<Longrightarrow> NonConsecutiveIndexes m c = Inl (Wrapf ErrUnrecognizedChange c)"
  by (simp_all add: NonConsecutiveIndexes_def External_neq_Internal[symmetric])

lemma MaxObservableIndex_cases:
  "MaxObservableIndex m External =
     Inr (MaxConsecutiveExternalIndex (Main m)
          + of_nat (length (NonConsecutiveExternalIndexes (Main m))) + LookaheadSize (Main m))"
  "MaxObservableIndex m Internal =
     Inr (MaxConsecutiveInternalIndex (Main m)
          + of_nat (length (NonConsecutiveInternalIndexes (Main m))) + LookaheadSize (Main m))"
  "c \<noteq> External \<Longrightarrow> c \<noteq> Internal \<Longrightarrow> MaxObservableIndex m c = Inl (Wrapf ErrUnrecognizedChange c)"
  by (simp_all add: MaxObservableIndex_def External_neq_Internal[symmetric])

lemma SetMaxConsecutiveIndex_cases:
  "SetMaxConsecutiveIndex m External i =
     (m\<lparr>Main := (Main m)\<lparr>MaxConsecutiveExternalIndex := i\<rparr>\<rparr>, None)"
  "SetMaxConsecutiveIndex m Internal i =
     (m\<lparr>Main := (Main m)\<lparr>MaxConsecutiveInternalIndex := i\<rparr>\<rparr>, None)"
  "c \<noteq> External \<Longrightarrow> c \<noteq> Internal \<Longrightarrow>
     SetMaxConsecutiveIndex m c i = (m, Some (Wrapf ErrUnrecognizedChange c))"
  by (simp_all add: SetMaxConsecutiveIndex_def External_neq_Internal[symmetric])

lemma SetNonConsecutiveIndexes_cases:
  "SetNonConsecutiveIndexes m External xs =
     (m\<lparr>Main := (Main m)\<lparr>NonConsecutiveExternalIndexes :=
         filter (\<lambda>i. MaxConsecutiveExternalIndex (Main m) \<le> i) xs\<rparr>\<rparr>, None)"
  "SetNonConsecutiveIndexes m Internal xs =
     (m\<lparr>Main := (Main m)\<lparr>NonConsecutiveInternalIndexes :=
         filter (\<lambda>i. MaxConsecutiveInternalIndex (Main m) \<le> i) xs\<rparr>\<rparr>, None)"
  "c \<noteq> External \<Longrightarrow> c \<noteq> Internal \<Longrightarrow>
     SetNonConsecutiveIndexes m c xs = (m, Some (Wrapf ErrUnrecognizedChange c))"
  by (simp_all add: SetNonConsecutiveIndexes_def MaxConsecutiveIndex_cases filter_loop_filter
        External_neq_Internal[symmetric])

lemma unrecognized_iff:
  "unrecognized_change (ChangeXPub m c) = (c \<noteq> External \<and> c \<noteq> Internal)"
  "unrecognized_change (MaxConsecutiveIndex m c) = (c \<noteq> External \<and> c \<noteq> Internal)"
  "unrecognized_change (NonConsecutiveIndexes m c) = (c \<noteq> External \<and> c \<noteq> Internal)"
  "unrecognized_change (MaxObservableIndex m c) = (c \<noteq> External \<and> c \<noteq> Internal)"
  "unrecognized_change_err (snd (SetMaxConsecutiveIndex m c i)) = (c \<noteq> External \<and> c \<noteq> Internal)"
  "unrecognized_change_err (snd (SetNonConsecutiveIndexes m c xs)) = (c \<noteq> External \<and> c \<noteq> Internal)"
       apply (cases "c = External"; cases "c = Internal"; simp add: unrecognized_change_def ChangeXPub_cases)
       apply (cases "c = External"; cases "c = Internal"; simp add: unrecognized_change_def MaxConsecutiveIndex_cases)
       apply (cases "c = External"; cases "c = Internal"; simp add: unrecognized_change_def NonConsecutiveIndexes_cases)
       apply (cases "c = External"; cases "c = Internal"; simp add: unrecognized_change_def MaxObservableIndex_cases)
       apply (cases "c = External"; cases "c = Internal"; simp add: unrecognized_change_err_def SetMaxConsecutiveIndex_cases)
       apply (cases "c = External"; cases "c = Internal"; simp add: unrecognized_change_err_def SetNonConsecutiveIndexes_cases)
  done


lemma unat_sum3:
  "unat ((a::u32) + of_nat n + l) = (unat a + n + unat l) mod 2 ^ 32"
proof -
  have "unat (a + of_nat n + l) = (unat (a + of_nat n) + unat l) mod 2 ^ 32"
    by (simp add: unat_word_ariths)
  also have "unat (a + (of_nat n :: u32)) = (unat a + unat (of_nat n :: u32)) mod 2 ^ 32"
    by (simp add: unat_word_ariths)
  also have "unat (of_nat n :: u32) = n mod 2 ^ 32"
    by (simp add: unat_of_nat)
  finally show ?thesis
    by (simp add: mod_simps)
qed

lemma wrap_below:
  assumes "2 ^ 32 \<le> unat (a::u32) + s" "s < 2 ^ 32"
  shows "(unat a + s) mod 2 ^ 32 < unat a"
proof -
  have "unat a < 2 ^ 32" using unsigned_less[of a] by simp
  with assms have "(unat a + s) mod 2 ^ 32 = unat a + s - 2 ^ 32"
    by (simp add: mod_if)
  with assms show ?thesis by simp
qed

lemma MaxObservableIndex_unat:
  assumes "c = External \<or> c = Internal"
    and "MaxConsecutiveIndex m c = Inr mx"
    and "NonConsecutiveIndexes m c = Inr xs"
  shows "MaxObservableIndex m c = Inr (mx + of_nat (length xs) + LookaheadSize (Main m))"
  using assms
  by (auto simp: MaxObservableIndex_cases MaxConsecutiveIndex_cases NonConsecutiveIndexes_cases)

section \<open>Validation of the change tag\<close>

text \<open>
  Claim C5. For every account record and every change value, each of \<open>ChangeXPub\<close>,
  \<open>MaxConsecutiveIndex\<close>, \<open>SetMaxConsecutiveIndex\<close>, \<open>NonConsecutiveIndexes\<close>,
  \<open>SetNonConsecutiveIndexes\<close> and \<open>MaxObservableIndex\<close> returns the unrecognized-change
  error exactly when the change is neither \<open>External\<close> nor \<open>Internal\<close>; for either of the
  two chains it succeeds, and returns or sets the field of that chain.
\<close>

theorem change_validation:
  "unrecognized_change (ChangeXPub m c) = (c \<noteq> External \<and> c \<noteq> Internal)
   \<and> unrecognized_change (MaxConsecutiveIndex m c) = (c \<noteq> External \<and> c \<noteq> Internal)
   \<and> unrecognized_change_err (snd (SetMaxConsecutiveIndex m c i)) = (c \<noteq> External \<and> c \<noteq> Internal)
   \<and> unrecognized_change (NonConsecutiveIndexes m c) = (c \<noteq> External \<and> c \<noteq> Internal)
   \<and> unrecognized_change_err (snd (SetNonConsecutiveIndexes m c xs)) = (c \<noteq> External \<and> c \<noteq> Internal)
   \<and> unrecognized_change (MaxObservableIndex m c) = (c \<noteq> External \<and> c \<noteq> Internal)
   \<and> ChangeXPub m External = Inr (ExternalXPub (Main m))
   \<and> ChangeXPub m Internal = Inr (InternalXPub (Main m))
   \<and> MaxConsecutiveIndex m External = Inr (MaxConsecutiveExternalIndex (Main m))
   \<and> MaxConsecutiveIndex m Internal = Inr (MaxConsecutiveInternalIndex (Main m))
   \<and> snd (SetMaxConsecutiveIndex m External i) = None
   \<and> MaxConsecutiveExternalIndex (Main (fst (SetMaxConsecutiveIndex m External i))) = i
   \<and> snd (SetMaxConsecutiveIndex m Internal i) = None
   \<and> MaxConsecutiveInternalIndex (Main (fst (SetMaxConsecutiveIndex m Internal i))) = i
   \<and> NonConsecutiveIndexes m External = Inr (NonConsecutiveExternalIndexes (Main m))
   \<and> NonConsecutiveIndexes m Internal = Inr (NonConsecutiveInternalIndexes (Main m))
   \<and> snd (SetNonConsecutiveIndexes m External xs) = None
   \<and> NonConsecutiveExternalIndexes (Main (fst (SetNonConsecutiveIndexes m External xs)))
       = filter (\<lambda>i. MaxConsecutiveExternalIndex (Main m) \<le> i) xs
   \<and> snd (SetNonConsecutiveIndexes m Internal xs) = None
   \<and> NonConsecutiveInternalIndexes (Main (fst (SetNonConsecutiveIndexes m Internal xs)))
       = filter (\<lambda>i. MaxConsecutiveInternalIndex (Main m) \<le> i) xs
   \<and> MaxObservableIndex m External =
       Inr (MaxConsecutiveExternalIndex (Main m)
            + of_nat (length (NonConsecutiveExternalIndexes (Main m))) + LookaheadSize (Main m))
   \<and> MaxObservableIndex m Internal =
       Inr (MaxConsecutiveInternalIndex (Main m)
            + of_nat (length (NonConsecutiveInternalIndexes (Main m))) + LookaheadSize (Main m))"
  by (simp add: unrecognized_iff ChangeXPub_cases MaxConsecutiveIndex_cases
        NonConsecutiveIndexes_cases MaxObservableIndex_cases SetMaxConsecutiveIndex_cases
        SetNonConsecutiveIndexes_cases)

theorem change_validation_witness:
  "unrecognized_change (ChangeXPub meta0 2)
   \<and> unrecognized_change (MaxConsecutiveIndex meta0 2)
   \<and> unrecognized_change_err (snd (SetMaxConsecutiveIndex meta0 2 7))
   \<and> unrecognized_change (NonConsecutiveIndexes meta0 2)
   \<and> unrecognized_change_err (snd (SetNonConsecutiveIndexes meta0 2 [7]))
   \<and> unrecognized_change (MaxObservableIndex meta0 2)
   \<and> ChangeXPub meta0 External = Inr ''ext''
   \<and> MaxObservableIndex meta0 Internal = Inr 20"
  using change_validation [of meta0 2 7 "[7]"]
  by (simp add: External_def Internal_def meta0_def lookaheadSize_def)

text \<open>
  Claim C8. For a change value that is neither \<open>External\<close> nor \<open>Internal\<close>,
  \<open>SetMaxConsecutiveIndex\<close> and \<open>SetNonConsecutiveIndexes\<close> return an error and leave the
  whole record (the account information, the derivation map and the address map) as it
  was before the call.
\<close>

theorem setters_atomic_on_error:
  assumes "c \<noteq> External" and "c \<noteq> Internal"
  shows "fst (SetMaxConsecutiveIndex m c i) = m
         \<and> snd (SetMaxConsecutiveIndex m c i) = Some (Wrapf ErrUnrecognizedChange c)
         \<and> fst (SetNonConsecutiveIndexes m c indexes) = m
         \<and> snd (SetNonConsecutiveIndexes m c indexes) = Some (Wrapf ErrUnrecognizedChange c)"
  using assms by (simp add: SetMaxConsecutiveIndex_cases SetNonConsecutiveIndexes_cases)

theorem setters_atomic_on_error_witness:
  "(2::u32) \<noteq> External \<and> (2::u32) \<noteq> Internal
   \<and> fst (SetMaxConsecutiveIndex meta0 2 7) = meta0
   \<and> snd (SetMaxConsecutiveIndex meta0 2 7) = Some (Wrapf ErrUnrecognizedChange 2)
   \<and> fst (SetNonConsecutiveIndexes meta0 2 [7, 8]) = meta0
   \<and> snd (SetNonConsecutiveIndexes meta0 2 [7, 8]) = Some (Wrapf ErrUnrecognizedChange 2)"
proof -
  have h: "(2::u32) \<noteq> External" "(2::u32) \<noteq> Internal"
    by (simp_all add: External_def Internal_def)
  show ?thesis
    using h setters_atomic_on_error [OF h, of meta0 7 "[7, 8]"] by simp
qed

section \<open>Frame of the setters\<close>

text \<open>
  Claim C10. \<open>SetMaxConsecutiveIndex\<close> on the external chain changes at most the field
  \<open>MaxConsecutiveExternalIndex\<close>, and \<open>SetNonConsecutiveIndexes\<close> on the external chain
  at most the field \<open>NonConsecutiveExternalIndexes\<close>; every other field of the record
  (the counter and the list of the internal chain, the extended public keys, the
  lookahead, the derivation map and the address map) is as before. The same holds with
  the two chains swapped. The fields that neither chain owns are listed for an arbitrary
  change value.
\<close>

theorem setters_frame:
  "Derivations (fst (SetMaxConsecutiveIndex m c i)) = Derivations m
   \<and> Addresses (fst (SetMaxConsecutiveIndex m c i)) = Addresses m
   \<and> Descriptor (Main (fst (SetMaxConsecutiveIndex m c i))) = Descriptor (Main m)
   \<and> XPub (Main (fst (SetMaxConsecutiveIndex m c i))) = XPub (Main m)
   \<and> SLIP32ExtendedPublicKey (Main (fst (SetMaxConsecutiveIndex m c i)))
       = SLIP32ExtendedPublicKey (Main m)
   \<and> ExternalXPub (Main (fst (SetMaxConsecutiveIndex m c i))) = ExternalXPub (Main m)
   \<and> InternalXPub (Main (fst (SetMaxConsecutiveIndex m c i))) = InternalXPub (Main m)
   \<and> LookaheadSize (Main (fst (SetMaxConsecutiveIndex m c i))) = LookaheadSize (Main m)
   \<and> Scheme (Main (fst (SetMaxConsecutiveIndex m c i))) = Scheme (Main m)
   \<and> Network (Main (fst (SetMaxConsecutiveIndex m c i))) = Network (Main m)
   \<and> NonConsecutiveExternalIndexes (Main (fst (SetMaxConsecutiveIndex m c i)))
       = NonConsecutiveExternalIndexes (Main m)
   \<and> NonConsecutiveInternalIndexes (Main (fst (SetMaxConsecutiveIndex m c i)))
       = NonConsecutiveInternalIndexes (Main m)
   \<and> MaxConsecutiveInternalIndex (Main (fst (SetMaxConsecutiveIndex m External i)))
       = MaxConsecutiveInternalIndex (Main m)
   \<and> MaxConsecutiveExternalIndex (Main (fst (SetMaxConsecutiveIndex m Internal i)))
       = MaxConsecutiveExternalIndex (Main m)
   \<and> Derivations (fst (SetNonConsecutiveIndexes m c xs)) = Derivations m
   \<and> Addresses (fst (SetNonConsecutiveIndexes m c xs)) = Addresses m
   \<and> Descriptor (Main (fst (SetNonConsecutiveIndexes m c xs))) = Descriptor (Main m)
   \<and> XPub (Main (fst (SetNonConsecutiveIndexes m c xs))) = XPub (Main m)
   \<and> SLIP32ExtendedPublicKey (Main (fst (SetNonConsecutiveIndexes m c xs)))
       = SLIP32ExtendedPublicKey (Main m)
   \<and> ExternalXPub (Main (fst (SetNonConsecutiveIndexes m c xs))) = ExternalXPub (Main m)
   \<and> InternalXPub (Main (fst (SetNonConsecutiveIndexes m c xs))) = InternalXPub (Main m)
   \<and> LookaheadSize (Main (fst (SetNonConsecutiveIndexes m c xs))) = LookaheadSize (Main m)
   \<and> Scheme (Main (fst (SetNonConsecutiveIndexes m c xs))) = Scheme (Main m)
   \<and> Network (Main (fst (SetNonConsecutiveIndexes m c xs))) = Network (Main m)
   \<and> MaxConsecutiveExternalIndex (Main (fst (SetNonConsecutiveIndexes m c xs)))
       = MaxConsecutiveExternalIndex (Main m)
   \<and> MaxConsecutiveInternalIndex (Main (fst (SetNonConsecutiveIndexes m c xs)))
       = MaxConsecutiveInternalIndex (Main m)
   \<and> NonConsecutiveInternalIndexes (Main (fst (SetNonConsecutiveIndexes m External xs)))
       = NonConsecutiveInternalIndexes (Main m)
   \<and> NonConsecutiveExternalIndexes (Main (fst (SetNonConsecutiveIndexes m Internal xs)))
       = NonConsecutiveExternalIndexes (Main m)"
proof -
  consider "c = External" | "c = Internal" | "c \<noteq> External" "c \<noteq> Internal"
    by blast
  then show ?thesis
  proof cases
    case 1
    then show ?thesis
      by (simp add: SetMaxConsecutiveIndex_cases SetNonConsecutiveIndexes_cases)
  next
    case 2
    then show ?thesis
      by (simp add: SetMaxConsecutiveIndex_cases SetNonConsecutiveIndexes_cases)
  next
    case 3
    then show ?thesis
      by (simp add: SetMaxConsecutiveIndex_cases SetNonConsecutiveIndexes_cases)
  qed
qed

section \<open>The observable bound\<close>

text \<open>
  Claim C2, amended. For either chain, \<open>MaxObservableIndex\<close> succeeds, and when the exact
  sum of the max consecutive index, the length of the non-consecutive list and the
  lookahead size is below \<open>2^32\<close>, the returned value is that sum.
\<close>

theorem MaxObservableIndex_exact:
  assumes "c = External \<or> c = Internal"
    and "MaxConsecutiveIndex m c = Inr mx"
    and "NonConsecutiveIndexes m c = Inr xs"
  shows "\<exists>r. MaxObservableIndex m c = Inr r
           \<and> (unat mx + length xs + unat (LookaheadSize (Main m)) < 2 ^ 32
                \<longrightarrow> unat r = unat mx + length xs + unat (LookaheadSize (Main m)))"
proof -
  have "MaxObservableIndex m c = Inr (mx + of_nat (length xs) + LookaheadSize (Main m))"
    using assms by (rule MaxObservableIndex_unat)
  moreover have "unat (mx + of_nat (length xs) + LookaheadSize (Main m))
      = unat mx + length xs + unat (LookaheadSize (Main m))"
    if "unat mx + length xs + unat (LookaheadSize (Main m)) < 2 ^ 32"
    using that by (simp add: unat_sum3)
  ultimately show ?thesis by blast
qed

theorem MaxObservableIndex_exact_witness:
  "MaxObservableIndex
     (meta0\<lparr>Main := (Main meta0)\<lparr>MaxConsecutiveExternalIndex := 1,
                                  NonConsecutiveExternalIndexes := [3]\<rparr>\<rparr>) External = Inr 22
   \<and> unat (22::u32) = unat (1::u32) + length [3::u32] + unat lookaheadSize"
proof -
  let ?m = "meta0\<lparr>Main := (Main meta0)\<lparr>MaxConsecutiveExternalIndex := 1,
                                  NonConsecutiveExternalIndexes := [3]\<rparr>\<rparr>"
  have h1: "External = External \<or> External = Internal" by simp
  have h2: "MaxConsecutiveIndex ?m External = Inr 1"
    by (simp add: MaxConsecutiveIndex_cases)
  have h3: "NonConsecutiveIndexes ?m External = Inr [3]"
    by (simp add: NonConsecutiveIndexes_cases)
  show ?thesis
    using MaxObservableIndex_exact [OF h1 h2 h3]
    by (simp add: MaxObservableIndex_cases meta0_def lookaheadSize_def)
qed

text \<open>
  Claim C2 as stated fails where the sum leaves \<open>uint32\<close>: with a max consecutive index
  of \<open>2^32 - 1\<close>, an empty list and the lookahead 20 the call returns 19.
\<close>

theorem MaxObservableIndex_exact_counterexample:
  "MaxConsecutiveIndex (fst (SetMaxConsecutiveIndex meta0 External 4294967295)) External
     = Inr 4294967295
   \<and> NonConsecutiveIndexes (fst (SetMaxConsecutiveIndex meta0 External 4294967295)) External
     = Inr []
   \<and> LookaheadSize (Main (fst (SetMaxConsecutiveIndex meta0 External 4294967295))) = 20
   \<and> MaxObservableIndex (fst (SetMaxConsecutiveIndex meta0 External 4294967295)) External
     = Inr 19
   \<and> unat (19::u32) \<noteq> unat (4294967295::u32) + length ([]::u32 list) + unat (20::u32)"
  by (simp add: SetMaxConsecutiveIndex_cases MaxConsecutiveIndex_cases
        NonConsecutiveIndexes_cases MaxObservableIndex_cases meta0_def lookaheadSize_def)

text \<open>
  Claim C9, amended. For either chain the value returned by \<open>MaxObservableIndex\<close> is the
  sum of the max consecutive index, the length of the non-consecutive list and the
  lookahead size, modulo \<open>2^32\<close>. When the exact sum reaches \<open>2^32\<close> and the length plus
  the lookahead size is below \<open>2^32\<close>, the returned value is smaller than the max
  consecutive index.
\<close>

theorem MaxObservableIndex_wraps:
  assumes "c = External \<or> c = Internal"
    and "MaxConsecutiveIndex m c = Inr mx"
    and "NonConsecutiveIndexes m c = Inr xs"
  shows "\<exists>r. MaxObservableIndex m c = Inr r
           \<and> unat r = (unat mx + length xs + unat (LookaheadSize (Main m))) mod 2 ^ 32
           \<and> (2 ^ 32 \<le> unat mx + length xs + unat (LookaheadSize (Main m))
                \<and> length xs + unat (LookaheadSize (Main m)) < 2 ^ 32
              \<longrightarrow> r < mx)"
proof -
  let ?l = "LookaheadSize (Main m)"
  let ?r = "mx + of_nat (length xs) + ?l"
  have res: "MaxObservableIndex m c = Inr ?r"
    using assms by (rule MaxObservableIndex_unat)
  have u: "unat ?r = (unat mx + length xs + unat ?l) mod 2 ^ 32"
    by (rule unat_sum3)
  have "?r < mx"
    if "2 ^ 32 \<le> unat mx + length xs + unat ?l" and "length xs + unat ?l < 2 ^ 32"
  proof -
    have "(unat mx + (length xs + unat ?l)) mod 2 ^ 32 < unat mx"
      using that by (intro wrap_below) (simp_all add: add.assoc)
    then have "unat ?r < unat mx" using u by (simp add: add.assoc)
    then show ?thesis by (simp add: word_less_nat_alt)
  qed
  with res u show ?thesis by blast
qed

theorem MaxObservableIndex_wraps_witness:
  "MaxObservableIndex
     (meta0\<lparr>Main := (Main meta0)\<lparr>MaxConsecutiveInternalIndex := 4294967290,
                                  NonConsecutiveInternalIndexes := [4294967293]\<rparr>\<rparr>) Internal
     = Inr 15
   \<and> unat (15::u32) = (4294967290 + 1 + 20) mod 2 ^ 32
   \<and> (15::u32) < 4294967290"
proof -
  let ?m = "meta0\<lparr>Main := (Main meta0)\<lparr>MaxConsecutiveInternalIndex := 4294967290,
                                  NonConsecutiveInternalIndexes := [4294967293]\<rparr>\<rparr>"
  have h1: "Internal = External \<or> Internal = Internal" by simp
  have h2: "MaxConsecutiveIndex ?m Internal = Inr 4294967290"
    by (simp add: MaxConsecutiveIndex_cases)
  have h3: "NonConsecutiveIndexes ?m Internal = Inr [4294967293]"
    by (simp add: NonConsecutiveIndexes_cases)
  show ?thesis
    using MaxObservableIndex_wraps [OF h1 h2 h3]
    by (simp add: MaxObservableIndex_cases meta0_def lookaheadSize_def)
qed

text \<open>
  Claim C9 as stated fails for a large lookahead: with a max consecutive index of 0, one
  non-consecutive index and the lookahead \<open>2^32 - 1\<close> the exact sum is \<open>2^32\<close>, the call
  returns 0, and 0 is not smaller than the max consecutive index.
\<close>

theorem MaxObservableIndex_wraps_counterexample:
  "MaxConsecutiveIndex
     (meta0\<lparr>Main := (Main meta0)\<lparr>LookaheadSize := 4294967295,
                                  NonConsecutiveExternalIndexes := [5]\<rparr>\<rparr>) External = Inr 0
   \<and> NonConsecutiveIndexes
     (meta0\<lparr>Main := (Main meta0)\<lparr>LookaheadSize := 4294967295,
                                  NonConsecutiveExternalIndexes := [5]\<rparr>\<rparr>) External = Inr [5]
   \<and> (2::nat) ^ 32 \<le> unat (0::u32) + length [5::u32] + unat (4294967295::u32)
   \<and> MaxObservableIndex
     (meta0\<lparr>Main := (Main meta0)\<lparr>LookaheadSize := 4294967295,
                                  NonConsecutiveExternalIndexes := [5]\<rparr>\<rparr>) External = Inr 0
   \<and> \<not> ((0::u32) < 0)"
  by (simp add: MaxConsecutiveIndex_cases NonConsecutiveIndexes_cases MaxObservableIndex_cases
        meta0_def)

section \<open>The filter of SetNonConsecutiveIndexes\<close>

lemma SetNonConsecutiveIndexes_result:
  assumes "c = External \<or> c = Internal"
    and "MaxConsecutiveIndex m c = Inr mx"
  shows "snd (SetNonConsecutiveIndexes m c xs) = None"
    and "MaxConsecutiveIndex (fst (SetNonConsecutiveIndexes m c xs)) c = Inr mx"
    and "NonConsecutiveIndexes (fst (SetNonConsecutiveIndexes m c xs)) c
           = Inr (filter (\<lambda>i. mx \<le> i) xs)"
  using assms
  by (auto simp: SetNonConsecutiveIndexes_cases MaxConsecutiveIndex_cases
        NonConsecutiveIndexes_cases)

text \<open>
  Claim C1, amended. After a call of \<open>SetNonConsecutiveIndexes\<close> on either chain, which
  succeeds, the non-consecutive list of the chain holds the given indexes that are
  greater than or equal to the max consecutive index of the chain, in their order: every
  entry is at least the max consecutive index. The entries are all strictly greater
  exactly when the given list does not contain the max consecutive index itself.
\<close>

theorem SetNonConsecutiveIndexes_at_least_max:
  assumes "c = External \<or> c = Internal"
    and "MaxConsecutiveIndex m c = Inr mx"
  shows "snd (SetNonConsecutiveIndexes m c xs) = None
         \<and> MaxConsecutiveIndex (fst (SetNonConsecutiveIndexes m c xs)) c = Inr mx
         \<and> NonConsecutiveIndexes (fst (SetNonConsecutiveIndexes m c xs)) c
             = Inr (filter (\<lambda>i. mx \<le> i) xs)
         \<and> at_least_max (fst (SetNonConsecutiveIndexes m c xs)) c
         \<and> above_max (fst (SetNonConsecutiveIndexes m c xs)) c = (mx \<notin> set xs)"
proof -
  note r = SetNonConsecutiveIndexes_result [OF assms, of xs]
  have "at_least_max (fst (SetNonConsecutiveIndexes m c xs)) c"
    by (simp add: at_least_max_def r list_all_iff)
  moreover have "above_max (fst (SetNonConsecutiveIndexes m c xs)) c = (mx \<notin> set xs)"
    by (auto simp: above_max_def r list_all_iff less_le)
  ultimately show ?thesis using r by simp
qed

theorem SetNonConsecutiveIndexes_at_least_max_witness:
  "NonConsecutiveIndexes
     (fst (SetNonConsecutiveIndexes
        (meta0\<lparr>Main := (Main meta0)\<lparr>MaxConsecutiveExternalIndex := 2\<rparr>\<rparr>) External [1, 2, 5, 0, 3]))
     External = Inr [2, 5, 3]
   \<and> at_least_max
     (fst (SetNonConsecutiveIndexes
        (meta0\<lparr>Main := (Main meta0)\<lparr>MaxConsecutiveExternalIndex := 2\<rparr>\<rparr>) External [1, 2, 5, 0, 3]))
     External"
proof -
  let ?m = "meta0\<lparr>Main := (Main meta0)\<lparr>MaxConsecutiveExternalIndex := 2\<rparr>\<rparr>"
  have h1: "External = External \<or> External = Internal" by simp
  have h2: "MaxConsecutiveIndex ?m External = Inr 2"
    by (simp add: MaxConsecutiveIndex_cases)
  show ?thesis
    using SetNonConsecutiveIndexes_at_least_max [OF h1 h2, of "[1, 2, 5, 0, 3]"]
    by (simp add: word_le_nat_alt)
qed

text \<open>
  Claim C1 as stated fails: an index equal to the max consecutive index passes the
  filter \<open>i >= maxConsecutiveIndex\<close>. On a record whose external max consecutive index is
  0, setting the list \<open>[0]\<close> stores \<open>[0]\<close>.
\<close>

theorem SetNonConsecutiveIndexes_strict_counterexample:
  "snd (SetNonConsecutiveIndexes meta0 External [0]) = None
   \<and> MaxConsecutiveIndex (fst (SetNonConsecutiveIndexes meta0 External [0])) External = Inr 0
   \<and> NonConsecutiveIndexes (fst (SetNonConsecutiveIndexes meta0 External [0])) External = Inr [0]
   \<and> \<not> above_max (fst (SetNonConsecutiveIndexes meta0 External [0])) External"
  by (simp add: SetNonConsecutiveIndexes_cases MaxConsecutiveIndex_cases
        NonConsecutiveIndexes_cases above_max_def meta0_def)

section \<open>Gap closure\<close>


lemma close_gaps_subset: "set (snd (close_gaps mx xs)) \<subseteq> set xs"
proof (induction mx xs rule: close_gaps.induct)
  case (1 mx xs)
  show ?case
  proof (cases "xs \<noteq> [] \<and> Min (set xs) = mx")
    case True
    with "1.IH" show ?thesis
      by (subst close_gaps.simps) auto
  next
    case False
    then show ?thesis
      by (subst close_gaps.simps) auto
  qed
qed

lemma close_gaps_exit:
  "snd (close_gaps mx xs) = [] \<or> Min (set (snd (close_gaps mx xs))) \<noteq> fst (close_gaps mx xs)"
proof (induction mx xs rule: close_gaps.induct)
  case (1 mx xs)
  show ?case
  proof (cases "xs \<noteq> [] \<and> Min (set xs) = mx")
    case True
    with "1.IH" show ?thesis
      by (subst (1 2 3) close_gaps.simps) simp
  next
    case False
    then show ?thesis
      by (subst (1 2 3) close_gaps.simps) auto
  qed
qed

lemma close_gaps_above:
  "\<forall>x\<in>set xs. mx \<le> x \<Longrightarrow> \<forall>x\<in>set (snd (close_gaps mx xs)). fst (close_gaps mx xs) < x"
proof (induction mx xs rule: close_gaps.induct)
  case (1 mx xs)
  show ?case
  proof (cases "xs \<noteq> [] \<and> Min (set xs) = mx")
    case True
    have "\<forall>x\<in>set (removeAll mx xs). mx + 1 \<le> x"
    proof
      fix x assume "x \<in> set (removeAll mx xs)"
      then have "x \<in> set xs" "x \<noteq> mx" by auto
      with "1.prems" have "mx < x" by (simp add: less_le)
      then show "mx + 1 \<le> x" by (rule inc_le)
    qed
    with "1.IH" True show ?thesis
      by (subst (1 2) close_gaps.simps) simp
  next
    case False
    have "mx \<notin> set xs"
    proof
      assume in_xs: "mx \<in> set xs"
      then have "Min (set xs) \<le> mx" by simp
      moreover have "mx \<le> Min (set xs)"
        using in_xs "1.prems" by (intro Min.boundedI) auto
      ultimately have "Min (set xs) = mx" by simp
      with in_xs False show False by auto
    qed
    with "1.prems" have "\<forall>x\<in>set xs. mx < x" by (auto simp: less_le)
    with False show ?thesis
      by (subst (1 2) close_gaps.simps) auto
  qed
qed

section \<open>Marking an index\<close>

lemma accessor_Inr_valid:
  "MaxConsecutiveIndex m c = Inr mx \<Longrightarrow> c = External \<or> c = Internal"
  "NonConsecutiveIndexes m c = Inr xs \<Longrightarrow> c = External \<or> c = Internal"
  by (auto simp: MaxConsecutiveIndex_def NonConsecutiveIndexes_def split: if_splits)

lemma set_chain_accessors:
  assumes "c = External \<or> c = Internal"
  shows "MaxConsecutiveIndex (set_chain m c st) c = Inr (fst st)"
    and "NonConsecutiveIndexes (set_chain m c st) c = Inr (snd st)"
  using assms
  by (auto simp: set_chain_def MaxConsecutiveIndex_cases NonConsecutiveIndexes_cases
        External_neq_Internal[symmetric])

lemma set_chain_same:
  assumes "MaxConsecutiveIndex m c = Inr mx" and "NonConsecutiveIndexes m c = Inr xs"
  shows "set_chain m c (mx, xs) = m"
  using assms
  by (auto simp: set_chain_def MaxConsecutiveIndex_def NonConsecutiveIndexes_def
        split: if_splits)

lemma insert_index_set: "set (insert_index i xs) = insert i (set xs)"
  by (auto simp: insert_index_def)



lemma mark_index_above:
  assumes "\<forall>x\<in>set xs. mx < x"
  shows "\<forall>x\<in>set (snd (mark_index i (mx, xs))). fst (mark_index i (mx, xs)) < x"
proof -
  consider "i < mx" | "i = mx" | "mx < i" by (meson linorder_less_linear)
  then show ?thesis
  proof cases
    case 1
    with assms show ?thesis by (simp add: mark_index_def)
  next
    case 2
    have "\<forall>x\<in>set xs. mx + 1 \<le> x" using assms by (auto intro: inc_le)
    then show ?thesis using 2 by (simp add: mark_index_def close_gaps_above)
  next
    case 3
    with assms show ?thesis by (auto simp: mark_index_def insert_index_set)
  qed
qed

lemma valid_change_not_hardened:
  "c = External \<or> c = Internal \<Longrightarrow> \<not> hardened c"
  by (auto simp: hardened_def External_def Internal_def word_le_nat_alt)

lemma MarkPathAsUsed_found:
  assumes "s d = Some m"
    and "MaxConsecutiveIndex m c = Inr mx"
    and "NonConsecutiveIndexes m c = Inr xs"
    and "MaxObservableIndex m c = Inr ob"
  shows "MarkPathAsUsed s d (c, i) =
           (if hardened i then (s, Some HARDENED_INDEX)
            else if ob \<le> i then (s, Some ADDRESS_NOT_OBSERVABLE)
            else (s(d \<mapsto> set_chain m c (mark_index i (mx, xs))), None))"
proof -
  have "\<not> hardened c"
    using assms(2) by (intro valid_change_not_hardened) (rule accessor_Inr_valid)
  with assms show ?thesis by (simp add: MarkPathAsUsed_def)
qed

lemma not_hardened_inc:
  assumes "\<not> hardened mx"
  shows "unat (mx + 1) = unat mx + 1"
proof -
  have "unat mx < 2 ^ 31"
    using assms by (simp add: hardened_def word_le_nat_alt not_le)
  then have "unat mx + 1 < 2 ^ 32" by simp
  then show ?thesis by (simp add: unat_word_ariths)
qed

text \<open>
  Claim C3, amended. For a stored account and a path \<open>(C, i)\<close> on one of the two chains,
  with \<open>mx\<close> the max consecutive index of \<open>C\<close>: a hardened index fails with
  \<open>HARDENED_INDEX\<close>, and an index that is not hardened but at or above
  \<open>MaxObservableIndex\<close> of \<open>C\<close> fails with \<open>ADDRESS_NOT_OBSERVABLE\<close>; both leave the
  store unchanged. For an index that is not hardened and inside the observable window,
  \<open>MarkPathAsUsed\<close> succeeds and goes by cases. If \<open>i < mx\<close> the store is unchanged. If
  \<open>i = mx\<close> the max consecutive index is incremented (without wrap-around) and the new
  pair of max consecutive index and non-consecutive list is the result of the
  gap-closure loop started there: while the smallest element of the list equals the
  current max consecutive index, that element is removed and the index incremented; the
  loop ends in a state where the list is empty or its smallest element is not the max
  consecutive index. If \<open>i > mx\<close> the max consecutive index stays and \<open>i\<close> is inserted
  into the list, as into a set.
\<close>

theorem MarkPathAsUsed_case_analysis:
  assumes "s d = Some m"
    and "MaxConsecutiveIndex m c = Inr mx"
    and "NonConsecutiveIndexes m c = Inr xs"
    and "MaxObservableIndex m c = Inr ob"
  shows "(hardened i \<longrightarrow> MarkPathAsUsed s d (c, i) = (s, Some HARDENED_INDEX))
         \<and> (\<not> hardened i \<and> ob \<le> i \<longrightarrow>
              MarkPathAsUsed s d (c, i) = (s, Some ADDRESS_NOT_OBSERVABLE))
         \<and> (\<not> hardened i \<and> i < ob \<and> i < mx \<longrightarrow> MarkPathAsUsed s d (c, i) = (s, None))
         \<and> (\<not> hardened i \<and> i < ob \<and> i = mx \<longrightarrow>
              unat (mx + 1) = unat mx + 1
              \<and> (\<exists>m'. MarkPathAsUsed s d (c, i) = (s(d \<mapsto> m'), None)
                    \<and> MaxConsecutiveIndex m' c = Inr (fst (close_gaps (mx + 1) xs))
                    \<and> NonConsecutiveIndexes m' c = Inr (snd (close_gaps (mx + 1) xs))))
         \<and> (\<not> hardened i \<and> i < ob \<and> mx < i \<longrightarrow>
              set (insert_index i xs) = insert i (set xs)
              \<and> (\<exists>m'. MarkPathAsUsed s d (c, i) = (s(d \<mapsto> m'), None)
                    \<and> MaxConsecutiveIndex m' c = Inr mx
                    \<and> NonConsecutiveIndexes m' c = Inr (insert_index i xs)))
         \<and> close_gaps k ys =
             (if ys \<noteq> [] \<and> Min (set ys) = k
              then close_gaps (k + 1) (removeAll k ys) else (k, ys))
         \<and> (snd (close_gaps k ys) = []
              \<or> Min (set (snd (close_gaps k ys))) \<noteq> fst (close_gaps k ys))"
proof -
  let ?m' = "set_chain m c (mark_index i (mx, xs))"
  note run = MarkPathAsUsed_found [where s = s and d = d and i = i, OF assms]
  have valid: "c = External \<or> c = Internal"
    using assms(2) by (rule accessor_Inr_valid)
  have fail1: "MarkPathAsUsed s d (c, i) = (s, Some HARDENED_INDEX)" if "hardened i"
    using that run by simp
  have fail2: "MarkPathAsUsed s d (c, i) = (s, Some ADDRESS_NOT_OBSERVABLE)"
    if "\<not> hardened i" "ob \<le> i"
    using that run by simp
  have ok: "MarkPathAsUsed s d (c, i) = (s(d \<mapsto> ?m'), None)" if "\<not> hardened i" "i < ob"
    using that run by (simp add: not_le)
  have below: "MarkPathAsUsed s d (c, i) = (s, None)" if "\<not> hardened i" "i < ob" "i < mx"
  proof -
    have "?m' = m"
      using that(3) set_chain_same [OF assms(2,3)] by (simp add: mark_index_def)
    with ok [OF that(1,2)] assms(1) show ?thesis
      by (simp add: map_upd_triv)
  qed
  have equal: "\<exists>m'. MarkPathAsUsed s d (c, i) = (s(d \<mapsto> m'), None)
      \<and> MaxConsecutiveIndex m' c = Inr (fst (close_gaps (mx + 1) xs))
      \<and> NonConsecutiveIndexes m' c = Inr (snd (close_gaps (mx + 1) xs))"
    if "\<not> hardened i" "i < ob" "i = mx"
    using ok [OF that(1,2)] that(3)
    by (intro exI [of _ ?m']) (simp add: set_chain_accessors [OF valid] mark_index_def)
  have above: "\<exists>m'. MarkPathAsUsed s d (c, i) = (s(d \<mapsto> m'), None)
      \<and> MaxConsecutiveIndex m' c = Inr mx
      \<and> NonConsecutiveIndexes m' c = Inr (insert_index i xs)"
    if "\<not> hardened i" "i < ob" "mx < i"
  proof -
    from that(3) have "\<not> i < mx" "i \<noteq> mx" by auto
    with ok [OF that(1,2)] show ?thesis
      by (intro exI [of _ ?m']) (simp add: set_chain_accessors [OF valid] mark_index_def)
  qed
  have loop: "close_gaps k ys =
      (if ys \<noteq> [] \<and> Min (set ys) = k then close_gaps (k + 1) (removeAll k ys) else (k, ys))"
    by (rule close_gaps.simps)
  have c1: "hardened i \<longrightarrow> MarkPathAsUsed s d (c, i) = (s, Some HARDENED_INDEX)"
    using fail1 by blast
  have c2: "\<not> hardened i \<and> ob \<le> i \<longrightarrow>
      MarkPathAsUsed s d (c, i) = (s, Some ADDRESS_NOT_OBSERVABLE)"
    using fail2 by blast
  have c3: "\<not> hardened i \<and> i < ob \<and> i < mx \<longrightarrow> MarkPathAsUsed s d (c, i) = (s, None)"
    using below by blast
  have c4: "\<not> hardened i \<and> i < ob \<and> i = mx \<longrightarrow>
      unat (mx + 1) = unat mx + 1
      \<and> (\<exists>m'. MarkPathAsUsed s d (c, i) = (s(d \<mapsto> m'), None)
            \<and> MaxConsecutiveIndex m' c = Inr (fst (close_gaps (mx + 1) xs))
            \<and> NonConsecutiveIndexes m' c = Inr (snd (close_gaps (mx + 1) xs)))"
    using equal not_hardened_inc [of mx] by blast
  have c5: "\<not> hardened i \<and> i < ob \<and> mx < i \<longrightarrow>
      set (insert_index i xs) = insert i (set xs)
      \<and> (\<exists>m'. MarkPathAsUsed s d (c, i) = (s(d \<mapsto> m'), None)
            \<and> MaxConsecutiveIndex m' c = Inr mx
            \<and> NonConsecutiveIndexes m' c = Inr (insert_index i xs))"
    using above insert_index_set [of i xs] by blast
  show ?thesis
    by (intro conjI c1 c2 c3 c4 c5 loop close_gaps_exit)
qed

theorem MarkPathAsUsed_case_analysis_witness:
  "\<exists>m'. MarkPathAsUsed
          (Map.empty(''acct'' \<mapsto>
             meta0\<lparr>Main := (Main meta0)\<lparr>MaxConsecutiveExternalIndex := 4,
                                          NonConsecutiveExternalIndexes := [6, 5, 9]\<rparr>\<rparr>))
          ''acct'' (External, 4)
        = ((Map.empty(''acct'' \<mapsto>
             meta0\<lparr>Main := (Main meta0)\<lparr>MaxConsecutiveExternalIndex := 4,
                                          NonConsecutiveExternalIndexes := [6, 5, 9]\<rparr>\<rparr>))
            (''acct'' \<mapsto> m'), None)
      \<and> MaxConsecutiveIndex m' External = Inr 7
      \<and> NonConsecutiveIndexes m' External = Inr [9]"
proof -
  let ?m = "meta0\<lparr>Main := (Main meta0)\<lparr>MaxConsecutiveExternalIndex := 4,
                                         NonConsecutiveExternalIndexes := [6, 5, 9]\<rparr>\<rparr>"
  let ?s = "Map.empty(''acct'' \<mapsto> ?m)"
  have h1: "?s ''acct'' = Some ?m" by simp
  have h2: "MaxConsecutiveIndex ?m External = Inr 4"
    by (simp add: MaxConsecutiveIndex_cases)
  have h3: "NonConsecutiveIndexes ?m External = Inr [6, 5, 9]"
    by (simp add: NonConsecutiveIndexes_cases)
  have h4: "MaxObservableIndex ?m External = Inr 27"
    by (simp add: MaxObservableIndex_cases meta0_def lookaheadSize_def)
  have h5: "\<not> hardened (4::u32) \<and> (4::u32) < 27 \<and> (4::u32) = 4"
    by (simp add: hardened_def word_le_nat_alt)
  have loop: "close_gaps (4 + 1) [6, 5, 9] = (7, [9])"
    by (simp add: close_gaps.simps)
  from MarkPathAsUsed_case_analysis
    [where s = ?s and d = "''acct''" and i = 4, OF h1 h2 h3 h4] h5
  obtain m' where "MarkPathAsUsed ?s ''acct'' (External, 4) = (?s(''acct'' \<mapsto> m'), None)"
    and "MaxConsecutiveIndex m' External = Inr (fst (close_gaps (4 + 1) [6, 5, 9]))"
    and "NonConsecutiveIndexes m' External = Inr (snd (close_gaps (4 + 1) [6, 5, 9]))"
    by blast
  then show ?thesis unfolding loop by auto
qed

text \<open>
  Claim C3 as stated fails for an index beyond the observable window: on a new keychain
  (max consecutive index 0, lookahead 20, window \<open>[0, 20)\<close>) marking index 1000, which
  is greater than the max consecutive index, is \<open>ADDRESS_NOT_OBSERVABLE\<close> and inserts
  nothing.
\<close>

theorem MarkPathAsUsed_beyond_window_counterexample:
  "MaxConsecutiveIndex meta0 External = Inr 0
   \<and> NonConsecutiveIndexes meta0 External = Inr []
   \<and> MaxObservableIndex meta0 External = Inr 20
   \<and> (0::u32) < 1000
   \<and> MarkPathAsUsed (Map.empty(''acct'' \<mapsto> meta0)) ''acct'' (External, 1000)
       = (Map.empty(''acct'' \<mapsto> meta0), Some ADDRESS_NOT_OBSERVABLE)"
proof -
  have h: "\<not> hardened External" "\<not> hardened (1000::u32)"
    by (simp_all add: hardened_def External_def word_le_nat_alt)
  have ob: "MaxObservableIndex meta0 External = Inr 20"
    by (simp add: MaxObservableIndex_cases meta0_def lookaheadSize_def)
  have "MarkPathAsUsed (Map.empty(''acct'' \<mapsto> meta0)) ''acct'' (External, 1000)
      = (Map.empty(''acct'' \<mapsto> meta0), Some ADDRESS_NOT_OBSERVABLE)"
    by (simp add: MarkPathAsUsed_def h ob word_le_nat_alt)
  moreover have "MaxConsecutiveIndex meta0 External = Inr 0"
    "NonConsecutiveIndexes meta0 External = Inr []"
    by (simp_all add: MaxConsecutiveIndex_cases NonConsecutiveIndexes_cases meta0_def)
  ultimately show ?thesis using ob by (simp add: word_less_nat_alt)
qed

text \<open>
  The scenarios of section 8 of the specification, run on the model: marking index 0 of a
  new keychain gives the max consecutive index 1 and the observable bound 21; marking
  index 3 alone leaves a gap; marking 0, 1 and 2 as well closes it.
\<close>

lemma small_not_hardened:
  "\<not> hardened External" "\<not> hardened Internal" "\<not> hardened (0::u32)" "\<not> hardened (1::u32)"
  "\<not> hardened (2::u32)" "\<not> hardened (3::u32)"
  by (simp_all add: hardened_def External_def Internal_def word_le_nat_alt)

lemma scenario_mark_first:
  "map_option (\<lambda>m. (MaxConsecutiveIndex m External, NonConsecutiveIndexes m External,
                       MaxObservableIndex m External))
     (fst (MarkPathAsUsed (Map.empty(''acct'' \<mapsto> meta0)) ''acct'' (External, 0)) ''acct'')
   = Some (Inr 1, Inr [], Inr 21)"
  by (simp add: MarkPathAsUsed_def MaxConsecutiveIndex_cases NonConsecutiveIndexes_cases
      MaxObservableIndex_cases set_chain_def mark_index_def close_gaps.simps meta0_def
      lookaheadSize_def small_not_hardened word_le_nat_alt)

lemma scenario_gap:
  "map_option (\<lambda>m. (MaxConsecutiveIndex m External, NonConsecutiveIndexes m External,
                       MaxObservableIndex m External))
     (fst (MarkPathAsUsed (Map.empty(''acct'' \<mapsto> meta0)) ''acct'' (External, 3)) ''acct'')
   = Some (Inr 0, Inr [3], Inr 21)"
  by (simp add: MarkPathAsUsed_def MaxConsecutiveIndex_cases NonConsecutiveIndexes_cases
      MaxObservableIndex_cases set_chain_def mark_index_def insert_index_def close_gaps.simps
      meta0_def lookaheadSize_def small_not_hardened word_le_nat_alt word_less_nat_alt)

lemma scenario_gap_closed:
  "map_option (\<lambda>m. (MaxConsecutiveIndex m External, NonConsecutiveIndexes m External))
     (fold (\<lambda>path s. fst (MarkPathAsUsed s ''acct'' path))
        [(External, 3), (External, 0), (External, 1), (External, 2)]
        (Map.empty(''acct'' \<mapsto> meta0)) ''acct'')
   = Some (Inr 4, Inr [])"
  by (simp add: MarkPathAsUsed_def MaxConsecutiveIndex_cases NonConsecutiveIndexes_cases
      MaxObservableIndex_cases set_chain_def mark_index_def insert_index_def close_gaps.simps
      meta0_def lookaheadSize_def small_not_hardened word_le_nat_alt word_less_nat_alt)





section \<open>Fresh addresses and creation\<close>

lemma fresh_addresses_ok:
  assumes "i + k \<le> 2 ^ 31"
    and "\<forall>j<k. address_at info (c, of_nat (i + j)) = Inr (g j)"
  shows "fresh_addresses address_at info c i k = Inr (map g [0..<k])"
  using assms
proof (induction k arbitrary: i g)
  case 0
  then show ?case by simp
next
  case (Suc k)
  from Suc.prems(1) have small: "\<not> 2 ^ 31 \<le> i" by simp
  from Suc.prems(2) have first: "address_at info (c, of_nat i) = Inr (g 0)"
    by (metis add.right_neutral zero_less_Suc)
  have rest: "fresh_addresses address_at info c (Suc i) k = Inr (map (g \<circ> Suc) [0..<k])"
  proof (rule Suc.IH)
    show "Suc i + k \<le> 2 ^ 31" using Suc.prems(1) by simp
    show "\<forall>j<k. address_at info (c, of_nat (Suc i + j)) = Inr ((g \<circ> Suc) j)"
      using Suc.prems(2) by (metis Suc_less_eq add_Suc_shift comp_apply)
  qed
  have "map g [0..<Suc k] = g 0 # map (g \<circ> Suc) [0..<k]"
    by (simp add: upt_conv_Cons map_Suc_upt [symmetric] del: upt_Suc)
  with small first rest show ?case
    by (simp add: derive_address_def del: upt_Suc)
qed

lemma fresh_addresses_hardened:
  assumes "\<forall>j<2 ^ 31. \<exists>a. address_at info (c, of_nat j) = Inr a"
    and "0 < k" and "2 ^ 31 < i + k"
  shows "fresh_addresses address_at info c i k = Inl HARDENED_INDEX"
  using assms(2,3)
proof (induction k arbitrary: i)
  case 0
  then show ?case by simp
next
  case (Suc k)
  show ?case
  proof (cases "2 ^ 31 \<le> i")
    case True
    then show ?thesis by (simp add: derive_address_def)
  next
    case False
    then obtain a where a: "address_at info (c, of_nat i) = Inr a"
      using assms(1) by (meson not_le)
    from False Suc.prems have "0 < k" "2 ^ 31 < Suc i + k" by simp_all
    then have "fresh_addresses address_at info c (Suc i) k = Inl HARDENED_INDEX"
      by (rule Suc.IH)
    with False a show ?thesis by (simp add: derive_address_def)
  qed
qed

text \<open>
  Claim C6, amended. For a stored account whose max consecutive index on the chain is
  \<open>base\<close>, \<open>GetFreshAddresses\<close> with size \<open>n\<close> leaves the store as it is, and a second
  call returns the same as the first. When \<open>base + n\<close> is at most \<open>2^31\<close> (no index of
  the range is hardened) and the derivation succeeds at each path of the range, the call
  returns the \<open>n\<close> addresses at the paths \<open>(change, base)\<close>, \<open>(change, base + 1)\<close>, ...,
  \<open>(change, base + n - 1)\<close> in this order. When \<open>n\<close> is positive and \<open>base + n\<close> exceeds
  \<open>2^31\<close>, and the derivation succeeds at every index that is not hardened, the call
  fails with \<open>HARDENED_INDEX\<close>.
\<close>

theorem GetFreshAddresses_fresh:
  assumes "s d = Some m"
    and "MaxConsecutiveIndex m c = Inr base"
  shows "fst (GetFreshAddresses address_at s d c n) = s
         \<and> GetFreshAddresses address_at (fst (GetFreshAddresses address_at s d c n)) d c n
             = GetFreshAddresses address_at s d c n
         \<and> (unat base + unat n \<le> 2 ^ 31
              \<and> (\<forall>k<unat n. address_at (Main m) (c, base + of_nat k) = Inr (addr k))
              \<longrightarrow> GetFreshAddresses address_at s d c n = (s, Inr (map addr [0..<unat n])))
         \<and> (0 < unat n \<and> 2 ^ 31 < unat base + unat n
              \<and> (\<forall>j<2 ^ 31. \<exists>a. address_at (Main m) (c, of_nat j) = Inr a)
              \<longrightarrow> GetFreshAddresses address_at s d c n = (s, Inl HARDENED_INDEX))"
proof -
  have run: "GetFreshAddresses address_at s d c n
      = (s, fresh_addresses address_at (Main m) c (unat base) (unat n))"
    using assms by (simp add: GetFreshAddresses_def)
  have c1: "fst (GetFreshAddresses address_at s d c n) = s"
    using run by simp
  have c2: "GetFreshAddresses address_at (fst (GetFreshAddresses address_at s d c n)) d c n
      = GetFreshAddresses address_at s d c n"
    using c1 by simp
  have c3: "unat base + unat n \<le> 2 ^ 31
      \<and> (\<forall>k<unat n. address_at (Main m) (c, base + of_nat k) = Inr (addr k))
      \<longrightarrow> GetFreshAddresses address_at s d c n = (s, Inr (map addr [0..<unat n]))"
  proof
    assume a: "unat base + unat n \<le> 2 ^ 31
      \<and> (\<forall>k<unat n. address_at (Main m) (c, base + of_nat k) = Inr (addr k))"
    then have "\<forall>j<unat n. address_at (Main m) (c, of_nat (unat base + j)) = Inr (addr j)"
      by simp
    with a have "fresh_addresses address_at (Main m) c (unat base) (unat n)
        = Inr (map addr [0..<unat n])"
      by (intro fresh_addresses_ok) simp_all
    with run show "GetFreshAddresses address_at s d c n = (s, Inr (map addr [0..<unat n]))"
      by simp
  qed
  have c4: "0 < unat n \<and> 2 ^ 31 < unat base + unat n
      \<and> (\<forall>j<2 ^ 31. \<exists>a. address_at (Main m) (c, of_nat j) = Inr a)
      \<longrightarrow> GetFreshAddresses address_at s d c n = (s, Inl HARDENED_INDEX)"
  proof
    assume a: "0 < unat n \<and> 2 ^ 31 < unat base + unat n
      \<and> (\<forall>j<2 ^ 31. \<exists>a. address_at (Main m) (c, of_nat j) = Inr a)"
    then have "fresh_addresses address_at (Main m) c (unat base) (unat n) = Inl HARDENED_INDEX"
      by (intro fresh_addresses_hardened) simp_all
    with run show "GetFreshAddresses address_at s d c n = (s, Inl HARDENED_INDEX)"
      by simp
  qed
  show ?thesis
    by (intro conjI c1 c2 c3 c4)
qed

theorem GetFreshAddresses_fresh_witness:
  "GetFreshAddresses (\<lambda>info path. Inr (replicate (unat (snd path)) (CHR ''a'')))
     (Map.empty(''acct'' \<mapsto> meta0\<lparr>Main := (Main meta0)\<lparr>MaxConsecutiveExternalIndex := 2\<rparr>\<rparr>))
     ''acct'' External 3
   = (Map.empty(''acct'' \<mapsto> meta0\<lparr>Main := (Main meta0)\<lparr>MaxConsecutiveExternalIndex := 2\<rparr>\<rparr>),
      Inr [''aa'', ''aaa'', ''aaaa''])"
proof -
  let ?m = "meta0\<lparr>Main := (Main meta0)\<lparr>MaxConsecutiveExternalIndex := 2\<rparr>\<rparr>"
  let ?s = "Map.empty(''acct'' \<mapsto> ?m)"
  let ?A = "\<lambda>(info::KeychainInfo) (path::DerivationPath).
      (Inr (replicate (unat (snd path)) (CHR ''a'')) :: error + string)"
  let ?addr = "\<lambda>k::nat. replicate (2 + k) (CHR ''a'')"
  have h1: "?s ''acct'' = Some ?m" by simp
  have h2: "MaxConsecutiveIndex ?m External = Inr 2"
    by (simp add: MaxConsecutiveIndex_cases)
  have h3: "unat (2::u32) + unat (3::u32) \<le> 2 ^ 31" by simp
  have h4: "\<forall>k<unat (3::u32). ?A (Main ?m) (External, 2 + of_nat k) = Inr (?addr k)"
  proof (intro allI impI)
    fix k :: nat assume "k < unat (3::u32)"
    then have "k < 3" by simp
    then have "unat ((2::u32) + of_nat k) = 2 + k"
      by (simp add: unat_word_ariths unat_of_nat)
    then show "?A (Main ?m) (External, 2 + of_nat k) = Inr (?addr k)" by simp
  qed
  have run: "map ?addr [0..<unat (3::u32)] = [''aa'', ''aaa'', ''aaaa'']"
    by code_simp
  from GetFreshAddresses_fresh [where s = ?s and d = "''acct''" and n = 3
      and address_at = ?A and addr = ?addr, OF h1 h2] h3 h4
  have "GetFreshAddresses ?A ?s ''acct'' External 3 = (?s, Inr (map ?addr [0..<unat (3::u32)]))"
    by blast
  then show ?thesis unfolding run .
qed

text \<open>
  Claim C6 as stated fails when the range reaches a hardened index: on a new keychain
  (\<open>base = 0\<close>) a request for \<open>2^31 + 1\<close> addresses includes the index \<open>2^31\<close> and
  fails with \<open>HARDENED_INDEX\<close> instead of returning addresses.
\<close>

theorem GetFreshAddresses_hardened_counterexample:
  "MaxConsecutiveIndex meta0 External = Inr 0
   \<and> GetFreshAddresses (\<lambda>info path. Inr ''addr'') (Map.empty(''acct'' \<mapsto> meta0)) ''acct''
       External 2147483649
     = (Map.empty(''acct'' \<mapsto> meta0), Inl HARDENED_INDEX)"
proof -
  have base: "MaxConsecutiveIndex meta0 External = Inr 0"
    by (simp add: MaxConsecutiveIndex_cases meta0_def)
  have "fresh_addresses (\<lambda>info path. Inr ''addr'') (Main meta0) External
      (unat (0::u32)) (unat (2147483649::u32)) = Inl HARDENED_INDEX"
    by (intro fresh_addresses_hardened) simp_all
  with base show ?thesis
    by (simp add: GetFreshAddresses_def)
qed

text \<open>
  Claim C7. The package constant \<open>lookaheadSize\<close> is 20, and a keychain created without
  an explicit lookahead has the lookahead size 20 (so the observable bound of a new chain
  is 20); a keychain created with a lookahead has that one.
\<close>

theorem default_lookahead:
  assumes "s d = None"
  shows "lookaheadSize = 20
         \<and> (\<exists>info. CreateKeychain CKDpub slip s d xpub scheme network None
                = (s(d \<mapsto> \<lparr>Main = info, Derivations = Map.empty, Addresses = Map.empty\<rparr>),
                   Inr info)
              \<and> LookaheadSize info = 20
              \<and> MaxObservableIndex
                   \<lparr>Main = info, Derivations = Map.empty, Addresses = Map.empty\<rparr> External
                 = Inr 20)
         \<and> (\<exists>info. CreateKeychain CKDpub slip s d xpub scheme network (Some l)
                = (s(d \<mapsto> \<lparr>Main = info, Derivations = Map.empty, Addresses = Map.empty\<rparr>),
                   Inr info)
              \<and> LookaheadSize info = l)"
  using assms
  by (simp add: CreateKeychain_def Let_def lookaheadSize_def MaxObservableIndex_cases)

theorem default_lookahead_witness:
  "\<exists>info. CreateKeychain (\<lambda>k i. k) (\<lambda>k sch net. k) Map.empty ''acct'' ''xpub'' BIP44 Mainnet None
            = (Map.empty(''acct'' \<mapsto>
                 \<lparr>Main = info, Derivations = Map.empty, Addresses = Map.empty\<rparr>), Inr info)
          \<and> LookaheadSize info = 20"
proof -
  have h: "(Map.empty :: Schema) ''acct'' = None" by simp
  from default_lookahead [where s = Map.empty and d = "''acct''" and CKDpub = "\<lambda>k i. k"
      and slip = "\<lambda>k sch net. k" and xpub = "''xpub''" and scheme = BIP44
      and network = Mainnet and l = 20, OF h]
  show ?thesis by blast
qed

end
